theory Spec2Isabelle
  imports Complex_Main "HOL-Library.Word"
begin

section \<open>The Cast device of package googlecast\<close>

text \<open>
  The development follows the Go type \<open>Cast\<close> and its methods: construction from a
  service record, connect and disconnect, the status cache, and the control requests.
  Each method is a function from the device before the call to the device after it,
  together with the value the method returns and, for the methods that reach the
  connection, the calls they made on it, in order.

  The \<open>sync.RWMutex\<close> of the struct is left out: a method is one step of the model,
  run to its return with no other method in between. Pointers handed to a method (the
  receiver, the URL of \<open>ReqLoadURL\<close>) are taken to be valid.
\<close>

subsection \<open>Values of type float32\<close>

text \<open>
  \<open>ReqVolumeLevel\<close> takes a \<open>float32\<close> and only compares it with the constants 0.0 and
  1.0. The model keeps the four kinds of value the comparisons tell apart: a NaN, the
  two infinities and the finite values, the latter by their exact rational value
  (both zeros are the value 0, as they are for \<open>==\<close> and \<open><\<close> in Go).
\<close>

datatype float32 = NaN | NegInf | Finite rat | PosInf

fun f32_lt :: "float32 \<Rightarrow> float32 \<Rightarrow> bool" where
  "f32_lt NaN _ = False"
| "f32_lt _ NaN = False"
| "f32_lt NegInf NegInf = False"
| "f32_lt NegInf _ = True"
| "f32_lt _ NegInf = False"
| "f32_lt PosInf _ = False"
| "f32_lt (Finite a) PosInf = True"
| "f32_lt (Finite a) (Finite b) = (a < b)"

definition f32_gt :: "float32 \<Rightarrow> float32 \<Rightarrow> bool" where
  "f32_gt a b = f32_lt b a"

fun f32_eq :: "float32 \<Rightarrow> float32 \<Rightarrow> bool" where
  "f32_eq NaN _ = False"
| "f32_eq _ NaN = False"
| "f32_eq a b = (a = b)"

definition f32_le :: "float32 \<Rightarrow> float32 \<Rightarrow> bool" where
  "f32_le a b = (f32_lt a b \<or> f32_eq a b)"

subsection \<open>Errors\<close>

text \<open>
  \<open>gopi.ErrNotFound\<close> and \<open>gopi.ErrOutOfOrder\<close> carry the prefixes given to
  \<open>WithPrefix\<close>. \<open>ErrTransport\<close>, \<open>ErrEncode\<close> and \<open>ErrSyntax\<close> stand for the errors of
  the connection, the channel and \<open>strconv\<close>. \<open>Multierror\<close> is the error list of
  \<open>github.com/hashicorp/go-multierror\<close>.
\<close>

datatype error =
    ErrNotFound "string list"
  | ErrOutOfOrder "string list"
  | ErrTransport string
  | ErrEncode string
  | ErrSyntax string
  | Multierror "error list"

text \<open>
  \<open>multierror.Append(result, err)\<close>: a nil \<open>result\<close> starts a new list, and an
  appended error that is itself a list is flattened into it.
\<close>

fun multierror_Append :: "error option \<Rightarrow> error \<Rightarrow> error" where
  "multierror_Append None (Multierror es) = Multierror es"
| "multierror_Append None e = Multierror [e]"
| "multierror_Append (Some (Multierror ds)) (Multierror es) = Multierror (ds @ es)"
| "multierror_Append (Some (Multierror ds)) e = Multierror (ds @ [e])"
| "multierror_Append (Some d) (Multierror es) = Multierror (d # es)"
| "multierror_Append (Some d) e = Multierror [d, e]"

fun is_OutOfOrder :: "error option \<Rightarrow> bool" where
  "is_OutOfOrder (Some (ErrOutOfOrder _)) = True"
| "is_OutOfOrder _ = False"

fun is_NotFound :: "error option \<Rightarrow> bool" where
  "is_NotFound (Some (ErrNotFound _)) = True"
| "is_NotFound _ = False"

subsection \<open>The data the device holds\<close>

text \<open>
  Modelled from the spec: the declarations of \<open>Volume\<close> and \<open>App\<close> are not in the
  sources. \<open>Volume\<close> is built positionally as \<open>Volume{level, false}\<close>, a level and a
  muted flag; of \<open>App\<close> the code reads \<open>TransportId\<close> and \<open>DisplayName\<close>, and the data
  model adds the application identifier and the status text.
\<close>

record Volume =
  Level :: float32
  Muted :: bool

record App =
  AppId :: string
  DisplayName :: string
  TransportId :: string
  StatusText :: string

text \<open>
  Modelled from the spec: \<open>Volume.Equals\<close> and \<open>App.Equals\<close> are not in the sources;
  section 4.1 describes them as a comparison by value, not by reference.
\<close>

definition Volume_Equals :: "Volume \<Rightarrow> Volume \<Rightarrow> bool" where
  "Volume_Equals this v = (this = v)"

definition App_Equals :: "App \<Rightarrow> App \<Rightarrow> bool" where
  "App_Equals this a = (this = a)"

text \<open>
  Modelled from the spec: the constants \<open>gopi.CAST_FLAG_*\<close> are declared outside the
  sources; they are the distinct signals "nothing changed", "app changed" and
  "volume changed".
\<close>

datatype CastFlag = CAST_FLAG_NONE | CAST_FLAG_APP | CAST_FLAG_VOLUME

text \<open>
  \<open>gopi.ServiceRecord\<close>, as far as the constructor reads it. A \<open>net.IP\<close> is held as its
  \<open>%v\<close> rendering, which is all the device does with an address.
\<close>

type_synonym IP = string

record ServiceRecord =
  Port :: "16 word"
  Addrs :: "IP list"
  Txt :: "string list"

text \<open>
  The struct \<open>Cast\<close>. The embedded \<open>connection\<close> (which holds the \<open>channel\<close>) is not in
  the sources; its state is the type parameter \<open>'c\<close>. The field \<open>id\<close> is named
  \<open>ident\<close> here, and the method \<open>Id\<close> is \<open>Id'\<close>.
\<close>

record 'c Cast =
  connection :: 'c
  ident :: string
  fn :: string
  md :: string
  rs :: string
  st :: "64 word"
  ips :: "IP list"
  port :: "16 word"
  volume :: "Volume option"
  app :: "App option"

subsection \<open>What the device calls and does not define\<close>

text \<open>
  The methods of \<open>connection\<close> and \<open>channel\<close> and the library function
  \<open>strconv.ParseUint\<close> are parameters of the model. Each takes the connection state
  and returns it updated. An encoder returns either an error or a correlation
  identifier with the payload; \<open>'b\<close> is the type of payloads (\<open>[]byte\<close> in the code,
  never inspected by the device). The error and state sinks handed to \<open>Connect\<close> are
  channels the device only passes on; they are not part of the model.
\<close>

type_synonym ('c, 'b) encoder = "'c \<Rightarrow> (error + int \<times> 'b) \<times> 'c"

record ('c, 'b) extern =
  zero_connection :: 'c
  strconv_ParseUint :: "string \<Rightarrow> error + 64 word"
  conn_Connect :: "string \<Rightarrow> string \<Rightarrow> int \<Rightarrow> 'c \<Rightarrow> error option \<times> 'c"
  conn_Disconnect :: "'c \<Rightarrow> error option \<times> 'c"
  conn_send :: "'b \<Rightarrow> 'c \<Rightarrow> error option \<times> 'c"
  chan_GetStatus :: "('c, 'b) encoder"
  chan_LaunchAppWithId :: "string \<Rightarrow> ('c, 'b) encoder"
  chan_SetVolume :: "Volume \<Rightarrow> ('c, 'b) encoder"
  chan_SetMuted :: "bool \<Rightarrow> ('c, 'b) encoder"
  chan_ConnectMedia :: "string \<Rightarrow> ('c, 'b) encoder"
  chan_LoadUrl :: "string \<Rightarrow> string \<Rightarrow> string \<Rightarrow> bool \<Rightarrow> ('c, 'b) encoder"

text \<open>The calls a method makes on the connection and the channel, as it makes them.\<close>

datatype 'b call =
    CallConnect string string int
  | CallDisconnect
  | CallSend 'b
  | CallGetStatus
  | CallLaunchAppWithId string
  | CallSetVolume Volume
  | CallSetMuted bool
  | CallConnectMedia string
  | CallLoadUrl string string string bool

fun is_send :: "'b call \<Rightarrow> bool" where
  "is_send (CallSend _) = True"
| "is_send _ = False"

definition sends :: "'b call list \<Rightarrow> 'b call list" where
  "sends cs = filter is_send cs"

subsection \<open>Construction\<close>

text \<open>\<open>strings.SplitN(r, "=", 2)\<close>: cut at the first \<open>=\<close>, or the whole string.\<close>

definition SplitN2 :: "string \<Rightarrow> string list" where
  "SplitN2 r =
     (if CHR ''='' \<in> set r
      then [takeWhile (\<lambda>c. c \<noteq> CHR ''='') r, tl (dropWhile (\<lambda>c. c \<noteq> CHR ''='') r)]
      else [r])"

fun txtToMap_loop :: "string list \<Rightarrow> (string \<rightharpoonup> string) \<Rightarrow> (string \<rightharpoonup> string)" where
  "txtToMap_loop [] result = result"
| "txtToMap_loop (r # txt) result =
     (let kv = SplitN2 r in
      if length kv = 2 then txtToMap_loop txt (result(kv ! 0 \<mapsto> kv ! 1))
      else if length kv = 1 then txtToMap_loop txt (result(kv ! 0 \<mapsto> ''''))
      else txtToMap_loop txt result)"

definition txtToMap :: "string list \<Rightarrow> (string \<rightharpoonup> string)" where
  "txtToMap txt = txtToMap_loop txt Map.empty"

text \<open>\<open>new(Cast)\<close>: every field has its zero value.\<close>

definition new_Cast :: "'c \<Rightarrow> 'c Cast" where
  "new_Cast c0 =
     \<lparr>connection = c0, ident = '''', fn = '''', md = '''', rs = '''', st = 0,
      ips = [], port = 0, volume = None, app = None\<rparr>"

text \<open>\<open>NewCastFromRecord\<close> returns nil (here \<open>None\<close>) or the new device.\<close>

definition NewCastFromRecord :: "('c, 'b) extern \<Rightarrow> ServiceRecord \<Rightarrow> 'c Cast option" where
  "NewCastFromRecord X r =
     (let this = new_Cast (zero_connection X) in
      if Port r = 0 then None
      else
        let this = this\<lparr>port := Port r\<rparr> in
        if length (Addrs r) = 0 then None
        else
          let this = this\<lparr>ips := Addrs r\<rparr>;
              tuples = txtToMap (Txt r)
          in (case tuples ''id'' of
                None \<Rightarrow> None
              | Some i \<Rightarrow>
                  if i \<noteq> '''' then
                    let this = this\<lparr>ident := i\<rparr>;
                        this = (case tuples ''fn'' of
                                  None \<Rightarrow> this\<lparr>fn := ident this\<rparr>
                                | Some f \<Rightarrow>
                                    if f \<noteq> '''' then this\<lparr>fn := f\<rparr>
                                    else this\<lparr>fn := ident this\<rparr>);
                        this = (case tuples ''md'' of
                                  None \<Rightarrow> this
                                | Some m \<Rightarrow> this\<lparr>md := m\<rparr>);
                        this = (case tuples ''rs'' of
                                  None \<Rightarrow> this
                                | Some s \<Rightarrow> this\<lparr>rs := s\<rparr>);
                        this = (case tuples ''st'' of
                                  None \<Rightarrow> this
                                | Some s \<Rightarrow>
                                    (case strconv_ParseUint X s of
                                       Inl err \<Rightarrow> this
                                     | Inr n \<Rightarrow> this\<lparr>st := n\<rparr>))
                    in Some this
                  else None))"

subsection \<open>Properties\<close>

definition Id' :: "'c Cast \<Rightarrow> string" where
  "Id' this = ident this"

definition Name :: "'c Cast \<Rightarrow> string" where
  "Name this = fn this"

definition Model :: "'c Cast \<Rightarrow> string" where
  "Model this = md this"

definition Service :: "'c Cast \<Rightarrow> string" where
  "Service this =
     (case app this of
        None \<Rightarrow> rs this
      | Some a \<Rightarrow> if DisplayName a \<noteq> '''' then DisplayName a else rs this)"

definition State :: "'c Cast \<Rightarrow> 64 word" where
  "State this = st this"

text \<open>
  A Go map read \<open>tuples[k]\<close> gives the empty string for a key that is not there; this
  is the value of key \<open>k\<close> in the TXT entries of a record, read that way.
\<close>

definition txt_value :: "ServiceRecord \<Rightarrow> string \<Rightarrow> string" where
  "txt_value r k = (case txtToMap (Txt r) k of None \<Rightarrow> '''' | Some v \<Rightarrow> v)"

subsection \<open>Connect and disconnect\<close>

text \<open>The \<open>%v\<close> rendering of an unsigned integer: its decimal digits.\<close>

fun decimal :: "nat \<Rightarrow> string" where
  "decimal n =
     (if n < 10 then [''0123456789'' ! n]
      else decimal (n div 10) @ [''0123456789'' ! (n mod 10)])"

declare decimal.simps [simp del]

text \<open>\<open>fmt.Sprintf("%v:%v", ip, port)\<close>\<close>

definition Sprintf_addr :: "IP \<Rightarrow> 16 word \<Rightarrow> string" where
  "Sprintf_addr ip p = ip @ '':'' @ decimal (unat p)"

definition ConnectWithTimeout ::
  "('c, 'b) extern \<Rightarrow> int \<Rightarrow> 'c Cast \<Rightarrow> error option \<times> 'c Cast \<times> 'b call list" where
  "ConnectWithTimeout X timeout this =
     (if length (ips this) = 0
      then (Some (ErrNotFound [''ConnectWithTimeout'', ''No Address'']), this, [])
      else
        let addr = Sprintf_addr (ips this ! 0) (port this) in
        (case conn_Connect X (Id' this) addr timeout (connection this) of
           (Some err, c1) \<Rightarrow>
             (Some err, this\<lparr>connection := c1\<rparr>, [CallConnect (Id' this) addr timeout])
         | (None, c1) \<Rightarrow>
             (None, this\<lparr>connection := c1, volume := None, app := None\<rparr>,
              [CallConnect (Id' this) addr timeout])))"

definition Disconnect ::
  "('c, 'b) extern \<Rightarrow> 'c Cast \<Rightarrow> error option \<times> 'c Cast \<times> 'b call list" where
  "Disconnect X this =
     (let result = None in
      (case conn_Disconnect X (connection this) of
         (Some err, c1) \<Rightarrow>
           (Some (multierror_Append result err),
            this\<lparr>connection := c1, volume := None, app := None\<rparr>, [CallDisconnect])
       | (None, c1) \<Rightarrow>
           (result, this\<lparr>connection := c1, volume := None, app := None\<rparr>, [CallDisconnect])))"

subsection \<open>State\<close>

text \<open>
  The idiom every request repeats:
  \<^verbatim>\<open>if _, data, err := this.channel.M(...); err != nil { return err }
  else if err := this.send(data); err != nil { return err }\<close>
  followed, in each method, by \<open>return nil\<close>. \<open>what\<close> names the encoder call in the
  list of calls.
\<close>

definition encode_send ::
  "('c, 'b) extern \<Rightarrow> 'b call \<Rightarrow> ('c, 'b) encoder \<Rightarrow> 'c Cast
     \<Rightarrow> error option \<times> 'c Cast \<times> 'b call list" where
  "encode_send X what enc this =
     (case enc (connection this) of
        (Inl err, c1) \<Rightarrow> (Some err, this\<lparr>connection := c1\<rparr>, [what])
      | (Inr (n, data), c1) \<Rightarrow>
          (case conn_send X data c1 of
             (Some err, c2) \<Rightarrow> (Some err, this\<lparr>connection := c2\<rparr>, [what, CallSend data])
           | (None, c2) \<Rightarrow> (None, this\<lparr>connection := c2\<rparr>, [what, CallSend data])))"

definition UpdateStatus ::
  "('c, 'b) extern \<Rightarrow> 'c Cast \<Rightarrow> error option \<times> 'c Cast \<times> 'b call list" where
  "UpdateStatus X this =
     (if volume this = None \<or> app this = None
      then encode_send X CallGetStatus (chan_GetStatus X) this
      else (None, this, []))"

definition SetVolume :: "Volume \<Rightarrow> 'c Cast \<Rightarrow> (CastFlag \<times> error option) \<times> 'c Cast" where
  "SetVolume v this =
     (case volume this of
        None \<Rightarrow> ((CAST_FLAG_VOLUME, None), this\<lparr>volume := Some v\<rparr>)
      | Some w \<Rightarrow>
          if Volume_Equals w v = False
          then ((CAST_FLAG_VOLUME, None), this\<lparr>volume := Some v\<rparr>)
          else ((CAST_FLAG_NONE, None), this))"

definition SetApp :: "App \<Rightarrow> 'c Cast \<Rightarrow> (CastFlag \<times> error option) \<times> 'c Cast" where
  "SetApp a this =
     (case app this of
        None \<Rightarrow> ((CAST_FLAG_APP, None), this\<lparr>app := Some a\<rparr>)
      | Some b \<Rightarrow>
          if App_Equals b a = False
          then ((CAST_FLAG_APP, None), this\<lparr>app := Some a\<rparr>)
          else ((CAST_FLAG_NONE, None), this))"

text \<open>\<open>SetMedia\<close> prints its argument and changes nothing.\<close>

definition SetMedia :: "'m \<Rightarrow> 'c Cast \<Rightarrow> (CastFlag \<times> error option) \<times> 'c Cast" where
  "SetMedia m this = ((CAST_FLAG_NONE, None), this)"

subsection \<open>Requests\<close>

definition ReqLaunchAppWithId ::
  "('c, 'b) extern \<Rightarrow> string \<Rightarrow> 'c Cast \<Rightarrow> error option \<times> 'c Cast \<times> 'b call list" where
  "ReqLaunchAppWithId X appId this =
     encode_send X (CallLaunchAppWithId appId) (chan_LaunchAppWithId X appId) this"

text \<open>The volume \<open>ReqVolumeLevel\<close> hands to the encoder: the clamp, then the mute form.\<close>

definition clamp_level :: "float32 \<Rightarrow> float32" where
  "clamp_level level =
     (if f32_lt level (Finite 0) then Finite 0
      else if f32_gt level (Finite 1) then Finite 1
      else level)"

definition request_volume :: "float32 \<Rightarrow> Volume" where
  "request_volume level0 =
     (let level = clamp_level level0;
          v = \<lparr>Level = level, Muted = False\<rparr>
      in if f32_eq level (Finite 0) then \<lparr>Level = Finite 0, Muted = True\<rparr> else v)"

definition ReqVolumeLevel ::
  "('c, 'b) extern \<Rightarrow> float32 \<Rightarrow> 'c Cast \<Rightarrow> error option \<times> 'c Cast \<times> 'b call list" where
  "ReqVolumeLevel X level this =
     (let v = request_volume level
      in encode_send X (CallSetVolume v) (chan_SetVolume X v) this)"

definition ReqMuted ::
  "('c, 'b) extern \<Rightarrow> bool \<Rightarrow> 'c Cast \<Rightarrow> error option \<times> 'c Cast \<times> 'b call list" where
  "ReqMuted X muted this =
     encode_send X (CallSetMuted muted) (chan_SetMuted X muted) this"

text \<open>
  \<open>ReqLoadURL\<close>; \<open>url\<close> is the rendering \<open>url.String()\<close>. The transport identifier is
  read from \<open>this.app\<close> at both steps; no step writes \<open>this.app\<close>.
\<close>

definition ReqLoadURL ::
  "('c, 'b) extern \<Rightarrow> string \<Rightarrow> string \<Rightarrow> bool \<Rightarrow> 'c Cast
     \<Rightarrow> error option \<times> 'c Cast \<times> 'b call list" where
  "ReqLoadURL X url mimetype autoplay this =
     (case app this of
        None \<Rightarrow> (Some (ErrOutOfOrder [''transportId'']), this, [])
      | Some a \<Rightarrow>
          if TransportId a = '''' then (Some (ErrOutOfOrder [''transportId'']), this, [])
          else
            (case encode_send X (CallConnectMedia (TransportId a))
                    (chan_ConnectMedia X (TransportId a)) this of
               (Some err, this1, cs1) \<Rightarrow> (Some err, this1, cs1)
             | (None, this1, cs1) \<Rightarrow>
                 (case encode_send X (CallLoadUrl (TransportId a) url mimetype autoplay)
                         (chan_LoadUrl X (TransportId a) url mimetype autoplay) this1 of
                    (res, this2, cs2) \<Rightarrow> (res, this2, cs1 @ cs2))))"

subsection \<open>Sequences of calls on a device\<close>

text \<open>
  The methods of the device, as values, and the device after a list of them. The URL,
  MIME type and autoplay flag of \<open>ReqLoadURL\<close> and the timeout of \<open>ConnectWithTimeout\<close>
  are part of the call; \<open>SetMedia\<close> ignores its argument.
\<close>

datatype invocation =
    M_ConnectWithTimeout int
  | M_Disconnect
  | M_UpdateStatus
  | M_SetVolume Volume
  | M_SetApp App
  | M_SetMedia
  | M_ReqLaunchAppWithId string
  | M_ReqVolumeLevel float32
  | M_ReqMuted bool
  | M_ReqLoadURL string string bool

fun invoke :: "('c, 'b) extern \<Rightarrow> invocation \<Rightarrow> 'c Cast \<Rightarrow> 'c Cast" where
  "invoke X (M_ConnectWithTimeout t) this = fst (snd (ConnectWithTimeout X t this))"
| "invoke X M_Disconnect this = fst (snd (Disconnect X this))"
| "invoke X M_UpdateStatus this = fst (snd (UpdateStatus X this))"
| "invoke X (M_SetVolume v) this = snd (SetVolume v this)"
| "invoke X (M_SetApp a) this = snd (SetApp a this)"
| "invoke X M_SetMedia this = snd (SetMedia () this)"
| "invoke X (M_ReqLaunchAppWithId a) this = fst (snd (ReqLaunchAppWithId X a this))"
| "invoke X (M_ReqVolumeLevel l) this = fst (snd (ReqVolumeLevel X l this))"
| "invoke X (M_ReqMuted m) this = fst (snd (ReqMuted X m this))"
| "invoke X (M_ReqLoadURL u m a) this = fst (snd (ReqLoadURL X u m a this))"

fun invoke_all :: "('c, 'b) extern \<Rightarrow> invocation list \<Rightarrow> 'c Cast \<Rightarrow> 'c Cast" where
  "invoke_all X [] this = this"
| "invoke_all X (m # ms) this = invoke_all X ms (invoke X m this)"

subsection \<open>A connection as section 4.2 describes it\<close>

text \<open>
  Modelled from the spec: the types \<open>connection\<close> and \<open>channel\<close> and their methods are
  not in the sources. Section 4.2 gives the connection three states; \<open>Connect\<close> fails
  with an ordering error when already connected and with a not-found error when the
  address cannot be reached, and \<open>send\<close> writes one framed message on the open
  transport and fails with a transport error when the connection is not established;
  \<open>Disconnect\<close> is idempotent. Section 4.3 gives each encoder a correlation identifier
  and a payload. The wire format is not described: a payload is kept as the
  identifier and the intent it encodes. Which addresses can be reached is the
  parameter \<open>reach\<close>.
\<close>

datatype ConnectionState = Disconnected | Connecting | Connected

datatype intent =
    GET_STATUS
  | LAUNCH string
  | SET_VOLUME Volume
  | SET_MUTED bool
  | CONNECT_MEDIA string
  | LOAD string string string bool

type_synonym frame = "int \<times> intent"

record spec_connection =
  cstate :: ConnectionState
  msgid :: int
  wire :: "frame list"

definition spec_zero :: spec_connection where
  "spec_zero = \<lparr>cstate = Disconnected, msgid = 0, wire = []\<rparr>"

definition spec_Connect ::
  "(string \<Rightarrow> bool) \<Rightarrow> string \<Rightarrow> string \<Rightarrow> int \<Rightarrow> spec_connection
     \<Rightarrow> error option \<times> spec_connection" where
  "spec_Connect reach i addr timeout c =
     (if cstate c = Connected then (Some (ErrOutOfOrder [''Connect'']), c)
      else if reach addr then (None, c\<lparr>cstate := Connected\<rparr>)
      else (Some (ErrNotFound [''Connect'']), c\<lparr>cstate := Disconnected\<rparr>))"

definition spec_Disconnect :: "spec_connection \<Rightarrow> error option \<times> spec_connection" where
  "spec_Disconnect c = (None, c\<lparr>cstate := Disconnected\<rparr>)"

definition spec_send :: "frame \<Rightarrow> spec_connection \<Rightarrow> error option \<times> spec_connection" where
  "spec_send data c =
     (if cstate c = Connected then (None, c\<lparr>wire := wire c @ [data]\<rparr>)
      else (Some (ErrTransport ''send''), c))"

definition spec_encode :: "intent \<Rightarrow> (spec_connection, frame) encoder" where
  "spec_encode m c =
     (Inr (msgid c + 1, (msgid c + 1, m)), c\<lparr>msgid := msgid c + 1\<rparr>)"

text \<open>
  The decimal fragment of \<open>strconv.ParseUint(s, 0, 64)\<close>: a string of digits with no
  leading zero; anything else is a syntax error here.
\<close>

definition ParseUint_decimal :: "string \<Rightarrow> error + 64 word" where
  "ParseUint_decimal s =
     (if s = [] \<or> \<not> list_all (\<lambda>c. c \<in> set ''0123456789'') s
         \<or> (1 < length s \<and> hd s = CHR ''0'')
      then Inl (ErrSyntax s)
      else
        let n = foldl (\<lambda>a c. 10 * a + (of_char c - 48)) (0::nat) s
        in if n < 2 ^ 64 then Inr (word_of_nat n) else Inl (ErrSyntax s))"

definition spec_extern :: "(string \<Rightarrow> bool) \<Rightarrow> (spec_connection, frame) extern" where
  "spec_extern reach =
     \<lparr>zero_connection = spec_zero,
      strconv_ParseUint = ParseUint_decimal,
      conn_Connect = spec_Connect reach,
      conn_Disconnect = spec_Disconnect,
      conn_send = spec_send,
      chan_GetStatus = spec_encode GET_STATUS,
      chan_LaunchAppWithId = (\<lambda>a. spec_encode (LAUNCH a)),
      chan_SetVolume = (\<lambda>v. spec_encode (SET_VOLUME v)),
      chan_SetMuted = (\<lambda>m. spec_encode (SET_MUTED m)),
      chan_ConnectMedia = (\<lambda>t. spec_encode (CONNECT_MEDIA t)),
      chan_LoadUrl = (\<lambda>t u m a. spec_encode (LOAD t u m a))\<rparr>"

text \<open>
  The record and the receiver of the scenario of section 8: identifier \<open>abc123\<close>, an
  empty friendly name, port 8009, the one address 10.0.0.5, which answers.
\<close>

definition scenario_record :: ServiceRecord where
  "scenario_record = \<lparr>Port = 8009, Addrs = [''10.0.0.5''], Txt = [''id=abc123'', ''fn='']\<rparr>"

definition scenario_extern :: "(spec_connection, frame) extern" where
  "scenario_extern = spec_extern (\<lambda>addr. addr = ''10.0.0.5:8009'')"

text \<open>The level of a volume lies in the closed interval from 0.0 to 1.0.\<close>

definition in_unit_interval :: "float32 \<Rightarrow> bool" where
  "in_unit_interval l = (f32_le (Finite 0) l \<and> f32_le l (Finite 1))"

text \<open>
  The device built from the scenario's record, the same device once connected, and a
  device that was handed a volume and an app without ever being connected.
\<close>

definition scenario_device :: "spec_connection Cast" where
  "scenario_device =
     \<lparr>connection = spec_zero, ident = ''abc123'', fn = ''abc123'', md = '''', rs = '''',
      st = 0, ips = [''10.0.0.5''], port = 8009, volume = None, app = None\<rparr>"

definition scenario_connected :: "spec_connection Cast" where
  "scenario_connected = scenario_device\<lparr>connection := spec_zero\<lparr>cstate := Connected\<rparr>\<rparr>"

definition scenario_volume :: Volume where
  "scenario_volume = \<lparr>Level = Finite (1 / 2), Muted = False\<rparr>"

definition scenario_app :: App where
  "scenario_app =
     \<lparr>AppId = ''CC1AD845'', DisplayName = ''Default Media Receiver'',
      TransportId = ''web-5'', StatusText = ''''\<rparr>"

definition scenario_cached :: "spec_connection Cast" where
  "scenario_cached =
     invoke_all scenario_extern [M_SetVolume scenario_volume, M_SetApp scenario_app]
       scenario_device"

text \<open>The key and the value of one TXT entry, as \<open>txtToMap\<close> stores them.\<close>

definition entry_key :: "string \<Rightarrow> string" where
  "entry_key r = takeWhile (\<lambda>c. c \<noteq> CHR ''='') r"

definition entry_value :: "string \<Rightarrow> string" where
  "entry_value r = drop (Suc (length (entry_key r))) r"

section \<open>Verified properties\<close>

subsection \<open>The scenario, evaluated\<close>

lemma scenario_txt:
  "txtToMap (Txt scenario_record) = [''id'' \<mapsto> ''abc123'', ''fn'' \<mapsto> '''']"
  by (simp add: txtToMap_def scenario_record_def SplitN2_def)

lemma scenario_txt_values:
  "txt_value scenario_record ''id'' = ''abc123''"
  "txt_value scenario_record ''fn'' = ''''"
  "txt_value scenario_record ''md'' = ''''"
  "txt_value scenario_record ''rs'' = ''''"
  by (simp_all add: txt_value_def scenario_txt)

lemma scenario_address: "Sprintf_addr ''10.0.0.5'' 8009 = ''10.0.0.5:8009''"
  by (simp add: Sprintf_addr_def decimal.simps)

lemma scenario_construct:
  "NewCastFromRecord scenario_extern scenario_record = Some scenario_device"
  by (simp add: NewCastFromRecord_def scenario_txt scenario_device_def new_Cast_def Let_def
        scenario_extern_def spec_extern_def)
     (simp add: scenario_record_def)

lemma scenario_connect:
  "ConnectWithTimeout scenario_extern t scenario_device =
     (None, scenario_connected, [CallConnect ''abc123'' ''10.0.0.5:8009'' t])"
  by (simp add: ConnectWithTimeout_def scenario_device_def scenario_connected_def
        scenario_address Id'_def scenario_extern_def spec_extern_def spec_Connect_def
        spec_zero_def)

subsection \<open>The entries of a TXT list\<close>

text \<open>
  Of several TXT entries with the same key the last one counts, and an entry without
  \<open>=\<close> is a key with the empty value.
\<close>

lemma SplitN2_length: "length (SplitN2 r) = 1 \<or> length (SplitN2 r) = 2"
  by (simp add: SplitN2_def)

lemma txtToMap_loop_step:
  "txtToMap_loop (r # txt) m = txtToMap_loop txt (m(entry_key r \<mapsto> entry_value r))"
proof (cases "CHR ''='' \<in> set r")
  case True
  have "dropWhile (\<lambda>c. c \<noteq> CHR ''='') r = drop (length (entry_key r)) r"
    by (simp add: entry_key_def dropWhile_eq_drop)
  then have "tl (dropWhile (\<lambda>c. c \<noteq> CHR ''='') r) = entry_value r"
    by (simp add: entry_value_def drop_Suc tl_drop)
  with True show ?thesis
    by (simp add: SplitN2_def entry_key_def)
next
  case False
  then have whole: "takeWhile (\<lambda>c. c \<noteq> CHR ''='') r = r"
    by auto
  show ?thesis
    unfolding entry_key_def entry_value_def whole
    using False by (simp add: SplitN2_def)
qed

lemma txtToMap_loop_last:
  "txtToMap_loop txt m k =
     (case filter (\<lambda>r. entry_key r = k) txt of
        [] \<Rightarrow> m k
      | e # es \<Rightarrow> Some (entry_value (last (e # es))))"
proof (induction "txt" arbitrary: m)
  case Nil
  show ?case by simp
next
  case (Cons r ts)
  show ?case
    unfolding txtToMap_loop_step Cons.IH
    by (simp split: list.splits)
qed

lemma txtToMap_last:
  "txtToMap txt k =
     (case filter (\<lambda>r. entry_key r = k) txt of
        [] \<Rightarrow> None
      | e # es \<Rightarrow> Some (entry_value (last (e # es))))"
  by (simp add: txtToMap_def txtToMap_loop_last)

subsection \<open>Construction\<close>

lemma NewCastFromRecord_None_iff:
  "(NewCastFromRecord X r = None) =
     (\<not> (txt_value r ''id'' \<noteq> '''' \<and> Port r \<noteq> 0 \<and> Addrs r \<noteq> []))"
  by (auto simp: NewCastFromRecord_def txt_value_def Let_def
           split: option.splits sum.splits)

lemma NewCastFromRecord_Some_fields:
  assumes "NewCastFromRecord X r = Some this"
  shows "Id' this = txt_value r ''id''"
    and "Name this =
           (if txt_value r ''fn'' \<noteq> '''' then txt_value r ''fn'' else txt_value r ''id'')"
    and "Model this = txt_value r ''md''"
    and "rs this = txt_value r ''rs''"
    and "ips this = Addrs r"
    and "port this = Port r"
    and "volume this = None"
    and "app this = None"
    and "connection this = zero_connection X"
  using assms
  by (auto simp: NewCastFromRecord_def txt_value_def Let_def new_Cast_def Id'_def Name_def
                 Model_def
           split: option.splits sum.splits if_splits)

text \<open>
  C1. A device is constructed from a record exactly when the value of \<open>id\<close> in the
  record's TXT entries is not empty, the port is not zero and there is at least one
  address. The device then has that identifier; its name is the value of \<open>fn\<close> when
  that is present and not empty and the identifier otherwise; its model and its status
  text are the values of \<open>md\<close> and \<open>rs\<close>, empty when the key is absent.
\<close>

theorem NewCastFromRecord_constructs:
  "((\<exists>this. NewCastFromRecord X r = Some this) =
      (txt_value r ''id'' \<noteq> '''' \<and> Port r \<noteq> 0 \<and> Addrs r \<noteq> []))
   \<and> (\<forall>this. NewCastFromRecord X r = Some this \<longrightarrow>
         Id' this = txt_value r ''id''
       \<and> Name this =
           (if txt_value r ''fn'' \<noteq> '''' then txt_value r ''fn'' else txt_value r ''id'')
       \<and> Model this = txt_value r ''md''
       \<and> rs this = txt_value r ''rs''
       \<and> (txtToMap (Txt r) ''md'' = None \<longrightarrow> Model this = '''')
       \<and> (txtToMap (Txt r) ''rs'' = None \<longrightarrow> rs this = ''''))"
proof -
  have "(\<exists>this. NewCastFromRecord X r = Some this) =
          (txt_value r ''id'' \<noteq> '''' \<and> Port r \<noteq> 0 \<and> Addrs r \<noteq> [])"
    using NewCastFromRecord_None_iff [of X r] by (cases "NewCastFromRecord X r") auto
  moreover have "txtToMap (Txt r) k = None \<Longrightarrow> txt_value r k = ''''" for k
    by (simp add: txt_value_def)
  ultimately show ?thesis
    by (simp add: NewCastFromRecord_Some_fields)
qed

theorem NewCastFromRecord_constructs_witness:
  "txt_value scenario_record ''id'' \<noteq> '''' \<and> Port scenario_record \<noteq> 0
   \<and> Addrs scenario_record \<noteq> []
   \<and> NewCastFromRecord scenario_extern scenario_record = Some scenario_device
   \<and> Name scenario_device = ''abc123'' \<and> Model scenario_device = ''''
   \<and> rs scenario_device = ''''"
proof -
  have pre: "txt_value scenario_record ''id'' \<noteq> ''''" "Port scenario_record \<noteq> 0"
    "Addrs scenario_record \<noteq> []"
    by (simp_all add: scenario_txt_values) (simp_all add: scenario_record_def)
  have md: "txtToMap (Txt scenario_record) ''md'' = None"
    and rs0: "txtToMap (Txt scenario_record) ''rs'' = None"
    by (simp_all add: scenario_txt)
  from NewCastFromRecord_constructs [of scenario_extern scenario_record] pre md rs0
  show ?thesis
    by (simp add: scenario_construct scenario_txt_values)
qed

subsection \<open>Connect\<close>

lemma ConnectWithTimeout_no_address:
  "ips this = [] \<Longrightarrow>
   ConnectWithTimeout X t this =
     (Some (ErrNotFound [''ConnectWithTimeout'', ''No Address'']), this, [])"
  by (simp add: ConnectWithTimeout_def)

lemma ConnectWithTimeout_first_address:
  assumes "ips this = ip # rest"
  shows "ConnectWithTimeout X t this =
           (case conn_Connect X (Id' this) (Sprintf_addr ip (port this)) t (connection this) of
              (Some err, c1) \<Rightarrow>
                (Some err, this\<lparr>connection := c1\<rparr>,
                 [CallConnect (Id' this) (Sprintf_addr ip (port this)) t])
            | (None, c1) \<Rightarrow>
                (None, this\<lparr>connection := c1, volume := None, app := None\<rparr>,
                 [CallConnect (Id' this) (Sprintf_addr ip (port this)) t]))"
  using assms by (simp add: ConnectWithTimeout_def Let_def)

text \<open>
  C8. With no address the call fails with the not-found error, calls nothing and
  leaves the device as it was. Otherwise it makes one call, \<open>Connect\<close> with the
  address built from the first entry of the list and the port, whatever the later
  entries are, and returns what that call returns; the two caches are reset when it
  succeeds and are as before when it fails.
\<close>

theorem ConnectWithTimeout_first_address_only:
  "(ips this = [] \<longrightarrow>
      ConnectWithTimeout X t this =
        (Some (ErrNotFound [''ConnectWithTimeout'', ''No Address'']), this, [])
      \<and> is_NotFound (fst (ConnectWithTimeout X t this)))
   \<and> (\<forall>ip rest res this' cs.
         ips this = ip # rest \<and> ConnectWithTimeout X t this = (res, this', cs) \<longrightarrow>
           cs = [CallConnect (Id' this) (Sprintf_addr ip (port this)) t]
         \<and> res = fst (conn_Connect X (Id' this) (Sprintf_addr ip (port this)) t
                        (connection this))
         \<and> (res = None \<longrightarrow> volume this' = None \<and> app this' = None)
         \<and> (res \<noteq> None \<longrightarrow> volume this' = volume this \<and> app this' = app this)
         \<and> ips this' = ips this)"
proof -
  have none: "ips this = [] \<longrightarrow>
      ConnectWithTimeout X t this =
        (Some (ErrNotFound [''ConnectWithTimeout'', ''No Address'']), this, [])
      \<and> is_NotFound (fst (ConnectWithTimeout X t this))"
    by (simp add: ConnectWithTimeout_no_address)
  have first: "cs = [CallConnect (Id' this) (Sprintf_addr ip (port this)) t]
         \<and> res = fst (conn_Connect X (Id' this) (Sprintf_addr ip (port this)) t
                        (connection this))
         \<and> (res = None \<longrightarrow> volume this' = None \<and> app this' = None)
         \<and> (res \<noteq> None \<longrightarrow> volume this' = volume this \<and> app this' = app this)
         \<and> ips this' = ips this"
    if i: "ips this = ip # rest" and r: "ConnectWithTimeout X t this = (res, this', cs)"
    for ip rest res this' cs
    using r [unfolded ConnectWithTimeout_first_address [OF i]]
    by (auto split: prod.splits option.splits)
  from none first show ?thesis
    by blast
qed

theorem ConnectWithTimeout_first_address_only_witness:
  "ips scenario_device = ''10.0.0.5'' # []
   \<and> ConnectWithTimeout scenario_extern 2000000000 scenario_device =
       (None, scenario_connected, [CallConnect ''abc123'' ''10.0.0.5:8009'' 2000000000])
   \<and> volume scenario_connected = None \<and> app scenario_connected = None
   \<and> ips (scenario_device\<lparr>ips := []\<rparr>) = []
   \<and> is_NotFound (fst (ConnectWithTimeout scenario_extern 2000000000
                          (scenario_device\<lparr>ips := []\<rparr>)))"
proof -
  have i: "ips scenario_device = ''10.0.0.5'' # []"
    by (simp add: scenario_device_def)
  have e: "ips (scenario_device\<lparr>ips := []\<rparr>) = []"
    by simp
  from ConnectWithTimeout_first_address_only
         [of scenario_device scenario_extern 2000000000] i scenario_connect [of 2000000000]
  have "volume scenario_connected = None \<and> app scenario_connected = None"
    by blast
  moreover
  from ConnectWithTimeout_first_address_only
         [of "scenario_device\<lparr>ips := []\<rparr>" scenario_extern 2000000000] e
  have "is_NotFound (fst (ConnectWithTimeout scenario_extern 2000000000
                          (scenario_device\<lparr>ips := []\<rparr>)))"
    by blast
  ultimately show ?thesis
    using i e scenario_connect [of 2000000000] by simp
qed

subsection \<open>Disconnect\<close>

text \<open>
  C7. \<open>Disconnect\<close> calls the connection's \<open>Disconnect\<close> once and, whatever that
  returns, leaves both caches unknown. It returns nil when the teardown returned nil,
  and otherwise the teardown error appended to an empty error list.
\<close>

theorem Disconnect_always_resets:
  "volume (fst (snd (Disconnect X this))) = None
   \<and> app (fst (snd (Disconnect X this))) = None
   \<and> snd (snd (Disconnect X this)) = [CallDisconnect]
   \<and> connection (fst (snd (Disconnect X this))) = snd (conn_Disconnect X (connection this))
   \<and> fst (Disconnect X this) =
       (case fst (conn_Disconnect X (connection this)) of
          None \<Rightarrow> None
        | Some (Multierror es) \<Rightarrow> Some (Multierror es)
        | Some err \<Rightarrow> Some (Multierror [err]))"
proof (cases "conn_Disconnect X (connection this)")
  case (Pair res c1)
  show ?thesis
  proof (cases res)
    case None
    with Pair show ?thesis by (simp add: Disconnect_def)
  next
    case (Some err)
    with Pair show ?thesis
      by (cases err) (simp_all add: Disconnect_def)
  qed
qed

theorem Disconnect_always_resets_witness:
  "volume scenario_cached \<noteq> None \<and> app scenario_cached \<noteq> None
   \<and> fst (Disconnect
            (scenario_extern\<lparr>conn_Disconnect := \<lambda>c. (Some (ErrTransport ''close''), c)\<rparr>)
            scenario_cached) = Some (Multierror [ErrTransport ''close''])
   \<and> volume (fst (snd (Disconnect
            (scenario_extern\<lparr>conn_Disconnect := \<lambda>c. (Some (ErrTransport ''close''), c)\<rparr>)
            scenario_cached))) = None
   \<and> app (fst (snd (Disconnect
            (scenario_extern\<lparr>conn_Disconnect := \<lambda>c. (Some (ErrTransport ''close''), c)\<rparr>)
            scenario_cached))) = None"
proof -
  have "volume scenario_cached \<noteq> None \<and> app scenario_cached \<noteq> None"
    by (simp add: scenario_cached_def SetVolume_def SetApp_def scenario_device_def)
  with Disconnect_always_resets
         [of "scenario_extern\<lparr>conn_Disconnect := \<lambda>c. (Some (ErrTransport ''close''), c)\<rparr>"
             scenario_cached]
  show ?thesis
    by simp
qed

subsection \<open>Encoding and sending\<close>

lemma encode_send_result:
  "encode_send X w enc this =
     (case fst (enc (connection this)) of
        Inl err \<Rightarrow> (Some err, this\<lparr>connection := snd (enc (connection this))\<rparr>, [w])
      | Inr (n, data) \<Rightarrow>
          (fst (conn_send X data (snd (enc (connection this)))),
           this\<lparr>connection := snd (conn_send X data (snd (enc (connection this))))\<rparr>,
           [w, CallSend data]))"
  by (simp add: encode_send_def split: prod.splits sum.splits option.splits)

lemma encode_send_keeps:
  "volume (fst (snd (encode_send X w enc this))) = volume this"
  "app (fst (snd (encode_send X w enc this))) = app this"
  "ips (fst (snd (encode_send X w enc this))) = ips this"
  "port (fst (snd (encode_send X w enc this))) = port this"
  "ident (fst (snd (encode_send X w enc this))) = ident this"
  by (simp_all add: encode_send_result split: prod.splits sum.splits)

lemma encode_send_sends:
  "sends (snd (snd (encode_send X w enc this))) =
     (case fst (enc (connection this)) of
        Inl err \<Rightarrow> sends [w]
      | Inr (n, data) \<Rightarrow> sends [w] @ [CallSend data])"
  by (simp add: encode_send_result sends_def split: prod.splits sum.splits)

subsection \<open>The status request\<close>

text \<open>
  C5. With both caches known \<open>UpdateStatus\<close> returns nil, calls nothing and leaves
  the device as it was. With a cache unknown it builds the get-status message once
  and hands it to \<open>send\<close> once, and these are all its calls (when the message cannot be
  built there is nothing to send, and the error is returned); it returns what \<open>send\<close>
  returns, and both caches are afterwards what they were before.
\<close>

theorem UpdateStatus_one_request:
  "(volume this \<noteq> None \<and> app this \<noteq> None \<longrightarrow> UpdateStatus X this = (None, this, []))
   \<and> (volume this = None \<or> app this = None \<longrightarrow>
         volume (fst (snd (UpdateStatus X this))) = volume this
       \<and> app (fst (snd (UpdateStatus X this))) = app this
       \<and> length (filter (\<lambda>c. c = CallGetStatus) (snd (snd (UpdateStatus X this)))) = 1
       \<and> (case fst (chan_GetStatus X (connection this)) of
            Inl err \<Rightarrow>
              fst (UpdateStatus X this) = Some err
              \<and> snd (snd (UpdateStatus X this)) = [CallGetStatus]
          | Inr (n, data) \<Rightarrow>
              fst (UpdateStatus X this) =
                fst (conn_send X data (snd (chan_GetStatus X (connection this))))
              \<and> snd (snd (UpdateStatus X this)) = [CallGetStatus, CallSend data]))"
  by (simp add: UpdateStatus_def encode_send_keeps)
     (auto simp: UpdateStatus_def encode_send_result split: prod.splits sum.splits)

lemma scenario_status_first:
  "UpdateStatus scenario_extern scenario_connected =
     (None,
      scenario_connected
        \<lparr>connection := \<lparr>cstate = Connected, msgid = 1, wire = [(1, GET_STATUS)]\<rparr>\<rparr>,
      [CallGetStatus, CallSend (1, GET_STATUS)])"
  by (simp add: UpdateStatus_def encode_send_def scenario_connected_def scenario_device_def
        scenario_extern_def spec_extern_def spec_encode_def spec_send_def spec_zero_def)

lemma scenario_status_second:
  "UpdateStatus scenario_extern
     (scenario_connected
        \<lparr>connection := \<lparr>cstate = Connected, msgid = 1, wire = [(1, GET_STATUS)]\<rparr>\<rparr>) =
     (None,
      scenario_connected
        \<lparr>connection :=
           \<lparr>cstate = Connected, msgid = 2, wire = [(1, GET_STATUS), (2, GET_STATUS)]\<rparr>\<rparr>,
      [CallGetStatus, CallSend (2, GET_STATUS)])"
  by (simp add: UpdateStatus_def encode_send_def scenario_connected_def scenario_device_def
        scenario_extern_def spec_extern_def spec_encode_def spec_send_def spec_zero_def)

lemma scenario_caches:
  "volume scenario_connected = None" "app scenario_connected = None"
  "cstate (connection scenario_connected) = Connected"
  "volume scenario_cached = Some scenario_volume" "app scenario_cached = Some scenario_app"
  "cstate (connection scenario_cached) = Disconnected"
  by (simp_all add: scenario_connected_def scenario_device_def scenario_cached_def
        SetVolume_def SetApp_def spec_zero_def)

theorem UpdateStatus_one_request_witness:
  "(volume scenario_connected = None \<or> app scenario_connected = None)
   \<and> snd (snd (UpdateStatus scenario_extern scenario_connected)) =
       [CallGetStatus, CallSend (1, GET_STATUS)]
   \<and> volume (fst (snd (UpdateStatus scenario_extern scenario_connected))) = None
   \<and> app (fst (snd (UpdateStatus scenario_extern scenario_connected))) = None
   \<and> volume scenario_cached \<noteq> None \<and> app scenario_cached \<noteq> None
   \<and> UpdateStatus scenario_extern scenario_cached = (None, scenario_cached, [])"
proof -
  have enc: "fst (chan_GetStatus scenario_extern (connection scenario_connected)) =
               Inr (1, (1, GET_STATUS))"
    by (simp add: scenario_extern_def spec_extern_def spec_encode_def scenario_connected_def
          scenario_device_def spec_zero_def)
  from UpdateStatus_one_request [of scenario_connected scenario_extern]
  have "snd (snd (UpdateStatus scenario_extern scenario_connected)) =
          [CallGetStatus, CallSend (1, GET_STATUS)]
        \<and> volume (fst (snd (UpdateStatus scenario_extern scenario_connected))) = None
        \<and> app (fst (snd (UpdateStatus scenario_extern scenario_connected))) = None"
    by (simp add: scenario_caches enc)
  moreover
  from UpdateStatus_one_request [of scenario_cached scenario_extern]
  have "UpdateStatus scenario_extern scenario_cached = (None, scenario_cached, [])"
    by (simp add: scenario_caches)
  ultimately show ?thesis
    by (simp add: scenario_caches)
qed

text \<open>
  C4, as the code has it. On a device whose caches are both empty a call of
  \<open>UpdateStatus\<close> builds one get-status message and sends it, and leaves the caches
  empty: the device records nothing about the request. A second call made right
  after the first therefore does the same again and sends one more get-status
  message.
\<close>

theorem UpdateStatus_twice_two_requests:
  assumes "volume this = None" and "app this = None"
    and "UpdateStatus X this = (e1, this1, cs1)"
    and "UpdateStatus X this1 = (e2, this2, cs2)"
  shows "volume this1 = None \<and> app this1 = None
   \<and> (case fst (chan_GetStatus X (connection this)) of
         Inl err \<Rightarrow> cs1 = [CallGetStatus]
       | Inr (n, data) \<Rightarrow> cs1 = [CallGetStatus, CallSend data])
   \<and> (case fst (chan_GetStatus X (connection this1)) of
         Inl err \<Rightarrow> cs2 = [CallGetStatus]
       | Inr (n, data) \<Rightarrow> cs2 = [CallGetStatus, CallSend data] \<and> length (sends cs2) = 1)"
proof -
  have one: "volume this1 = None \<and> app this1 = None"
    using assms(1-3) encode_send_keeps(1,2) [of X CallGetStatus "chan_GetStatus X" this]
    by (simp add: UpdateStatus_def)
  have first: "case fst (chan_GetStatus X (connection this)) of
         Inl err \<Rightarrow> cs1 = [CallGetStatus]
       | Inr (n, data) \<Rightarrow> cs1 = [CallGetStatus, CallSend data]"
    using assms(1-3)
    by (simp add: UpdateStatus_def encode_send_result split: prod.splits sum.splits)
  have second: "case fst (chan_GetStatus X (connection this1)) of
         Inl err \<Rightarrow> cs2 = [CallGetStatus]
       | Inr (n, data) \<Rightarrow> cs2 = [CallGetStatus, CallSend data] \<and> length (sends cs2) = 1"
    using one assms(4)
    by (auto simp: UpdateStatus_def encode_send_result sends_def split: prod.splits sum.splits)
  from one first second show ?thesis
    by simp
qed

theorem UpdateStatus_twice_two_requests_witness:
  "volume scenario_connected = None \<and> app scenario_connected = None
   \<and> cstate (connection scenario_connected) = Connected
   \<and> snd (snd (UpdateStatus scenario_extern scenario_connected)) =
       [CallGetStatus, CallSend (1, GET_STATUS)]
   \<and> snd (snd (UpdateStatus scenario_extern
                  (fst (snd (UpdateStatus scenario_extern scenario_connected))))) =
       [CallGetStatus, CallSend (2, GET_STATUS)]"
proof -
  let ?d1 = "scenario_connected
        \<lparr>connection := \<lparr>cstate = Connected, msgid = 1, wire = [(1, GET_STATUS)]\<rparr>\<rparr>"
  have enc1: "fst (chan_GetStatus scenario_extern (connection scenario_connected)) =
               Inr (1, (1, GET_STATUS))"
    and enc2: "fst (chan_GetStatus scenario_extern (connection ?d1)) = Inr (2, (2, GET_STATUS))"
    by (simp_all add: scenario_extern_def spec_extern_def spec_encode_def
          scenario_connected_def scenario_device_def spec_zero_def)
  from UpdateStatus_twice_two_requests
         [OF scenario_caches(1) scenario_caches(2) scenario_status_first scenario_status_second]
  show ?thesis
    by (simp add: scenario_caches scenario_status_first scenario_status_second enc1 enc2)
qed

text \<open>
  The claim C4 at the scenario's connected device: the second call, made with the
  caches still empty, sends a get-status message of its own.
\<close>

theorem UpdateStatus_second_call_counterexample:
  "volume scenario_connected = None \<and> app scenario_connected = None
   \<and> cstate (connection scenario_connected) = Connected
   \<and> sends (snd (snd (UpdateStatus scenario_extern scenario_connected))) =
       [CallSend (1, GET_STATUS)]
   \<and> sends (snd (snd (UpdateStatus scenario_extern
                         (fst (snd (UpdateStatus scenario_extern scenario_connected)))))) =
       [CallSend (2, GET_STATUS)]
   \<and> length (sends (snd (snd (UpdateStatus scenario_extern
                         (fst (snd (UpdateStatus scenario_extern scenario_connected))))))) \<noteq> 0"
  by (simp add: scenario_caches scenario_status_first scenario_status_second sends_def)

subsection \<open>Merging a volume or an app\<close>

text \<open>
  C6. \<open>SetVolume\<close> with the volume the cache already holds returns the no-change flag
  and the device as it was; with any other volume, or with an empty cache, it stores
  the volume and returns the volume flag. \<open>SetApp\<close> does the same with the app and the
  app flag. Neither takes the connection's methods nor changes the connection.
\<close>

theorem SetVolume_SetApp_by_value:
  "SetVolume v this =
     (if volume this = Some v then ((CAST_FLAG_NONE, None), this)
      else ((CAST_FLAG_VOLUME, None), this\<lparr>volume := Some v\<rparr>))
   \<and> SetApp a this =
     (if app this = Some a then ((CAST_FLAG_NONE, None), this)
      else ((CAST_FLAG_APP, None), this\<lparr>app := Some a\<rparr>))
   \<and> volume (snd (SetVolume v this)) = Some v
   \<and> app (snd (SetApp a this)) = Some a
   \<and> connection (snd (SetVolume v this)) = connection this
   \<and> connection (snd (SetApp a this)) = connection this"
  by (simp add: SetVolume_def SetApp_def Volume_Equals_def App_Equals_def
           split: option.splits)

theorem SetVolume_SetApp_by_value_witness:
  "volume scenario_cached = Some \<lparr>Level = Finite (1 / 2), Muted = False\<rparr>
   \<and> SetVolume \<lparr>Level = Finite (1 / 2), Muted = False\<rparr> scenario_cached =
       ((CAST_FLAG_NONE, None), scenario_cached)
   \<and> volume scenario_device \<noteq> Some scenario_volume
   \<and> SetVolume scenario_volume scenario_device =
       ((CAST_FLAG_VOLUME, None), scenario_device\<lparr>volume := Some scenario_volume\<rparr>)
   \<and> SetApp scenario_app scenario_cached = ((CAST_FLAG_NONE, None), scenario_cached)"
proof -
  have v: "volume scenario_cached = Some \<lparr>Level = Finite (1 / 2), Muted = False\<rparr>"
    by (simp add: scenario_caches scenario_volume_def)
  have d: "volume scenario_device \<noteq> Some scenario_volume"
    by (simp add: scenario_device_def)
  from SetVolume_SetApp_by_value
         [of "\<lparr>Level = Finite (1 / 2), Muted = False\<rparr>" scenario_cached scenario_app]
       SetVolume_SetApp_by_value [of scenario_volume scenario_device scenario_app]
       v d
  show ?thesis
    by (simp add: scenario_caches)
qed

subsection \<open>The volume request\<close>

lemma clamp_level_cases:
  "clamp_level NaN = NaN"
  "clamp_level NegInf = Finite 0"
  "clamp_level PosInf = Finite 1"
  "clamp_level (Finite q) = (if q < 0 then Finite 0 else if 1 < q then Finite 1 else Finite q)"
  by (simp_all add: clamp_level_def f32_gt_def)

lemma clamp_level_in_unit_interval:
  "level \<noteq> NaN \<Longrightarrow> in_unit_interval (clamp_level level)"
  by (cases level) (auto simp: clamp_level_cases in_unit_interval_def f32_le_def)

text \<open>
  For every level that is a number, the volume handed to the encoder has its level in
  the interval from 0.0 to 1.0; it is the mute form, level 0 with the muted flag, when
  the clamped level is 0, and the clamped level with the flag off otherwise.
\<close>

lemma request_volume_number:
  assumes "level \<noteq> NaN"
  shows "in_unit_interval (Level (request_volume level))"
    and "request_volume level =
           (if f32_eq (clamp_level level) (Finite 0) then \<lparr>Level = Finite 0, Muted = True\<rparr>
            else \<lparr>Level = clamp_level level, Muted = False\<rparr>)"
proof -
  show "request_volume level =
           (if f32_eq (clamp_level level) (Finite 0) then \<lparr>Level = Finite 0, Muted = True\<rparr>
            else \<lparr>Level = clamp_level level, Muted = False\<rparr>)"
    by (simp add: request_volume_def Let_def)
  then show "in_unit_interval (Level (request_volume level))"
    using clamp_level_in_unit_interval [OF assms]
    by (simp add: in_unit_interval_def f32_le_def)
qed

lemma request_volume_examples:
  "request_volume (Finite (- 3 / 10)) = \<lparr>Level = Finite 0, Muted = True\<rparr>"
  "request_volume (Finite 0) = \<lparr>Level = Finite 0, Muted = True\<rparr>"
  "request_volume (Finite (17 / 10)) = \<lparr>Level = Finite 1, Muted = False\<rparr>"
  by (simp_all add: request_volume_def clamp_level_cases Let_def)

lemma ReqVolumeLevel_same_encoding:
  "ReqVolumeLevel X (Finite (- 3 / 10)) this = ReqVolumeLevel X (Finite 0) this"
  by (simp only: ReqVolumeLevel_def request_volume_examples)

text \<open>
  C2 at the level NaN. Both comparisons of the clamp are false for a NaN, and so is
  the comparison with 0: the encoder is called with a volume whose level is the NaN
  itself, outside the interval from 0.0 to 1.0, and with the muted flag off.
\<close>

theorem ReqVolumeLevel_NaN_not_clamped:
  "request_volume NaN = \<lparr>Level = NaN, Muted = False\<rparr>
   \<and> \<not> in_unit_interval (Level (request_volume NaN))
   \<and> hd (snd (snd (ReqVolumeLevel X NaN this))) = CallSetVolume \<lparr>Level = NaN, Muted = False\<rparr>"
proof -
  have v: "request_volume NaN = \<lparr>Level = NaN, Muted = False\<rparr>"
    by (simp add: request_volume_def clamp_level_cases Let_def)
  have "\<not> in_unit_interval NaN"
    by (simp add: in_unit_interval_def f32_le_def)
  moreover have "hd (snd (snd (ReqVolumeLevel X NaN this))) =
      CallSetVolume \<lparr>Level = NaN, Muted = False\<rparr>"
    by (simp add: ReqVolumeLevel_def v Let_def encode_send_result split: sum.splits prod.splits)
  ultimately show ?thesis
    using v by simp
qed

subsection \<open>Loading a URL\<close>

lemma ReqLoadURL_no_app:
  "app this = None \<or> (\<exists>a. app this = Some a \<and> TransportId a = '''') \<Longrightarrow>
   ReqLoadURL X url mimetype autoplay this = (Some (ErrOutOfOrder [''transportId'']), this, [])"
  by (auto simp: ReqLoadURL_def)

lemma ReqLoadURL_steps:
  assumes "app this = Some a" and "TransportId a \<noteq> ''''"
  shows "ReqLoadURL X url mimetype autoplay this =
     (case encode_send X (CallConnectMedia (TransportId a))
              (chan_ConnectMedia X (TransportId a)) this of
        (Some err, this1, cs1) \<Rightarrow> (Some err, this1, cs1)
      | (None, this1, cs1) \<Rightarrow>
          (case encode_send X (CallLoadUrl (TransportId a) url mimetype autoplay)
                  (chan_LoadUrl X (TransportId a) url mimetype autoplay) this1 of
             (res, this2, cs2) \<Rightarrow> (res, this2, cs1 @ cs2)))"
  using assms by (simp add: ReqLoadURL_def)

text \<open>
  C3. Without an app, or with an app whose transport identifier is empty,
  \<open>ReqLoadURL\<close> returns the ordering error and calls nothing. Otherwise its first call
  builds the connect-media message for the app's transport identifier. When that
  fails, or when sending the message fails, the error is returned as it is and no
  load-URL message is built. When both succeed, the next call builds the load-URL
  message for the same transport identifier, and the result is that of building and
  sending it.
\<close>

theorem ReqLoadURL_two_ordered_steps:
  "(app this = None \<or> (\<exists>a. app this = Some a \<and> TransportId a = '''') \<longrightarrow>
      ReqLoadURL X url mimetype autoplay this =
        (Some (ErrOutOfOrder [''transportId'']), this, [])
      \<and> is_OutOfOrder (fst (ReqLoadURL X url mimetype autoplay this)))
   \<and> (\<forall>a res this' cs.
         app this = Some a \<and> TransportId a \<noteq> ''''
         \<and> ReqLoadURL X url mimetype autoplay this = (res, this', cs) \<longrightarrow>
           hd cs = CallConnectMedia (TransportId a)
         \<and> (\<forall>err c1. chan_ConnectMedia X (TransportId a) (connection this) = (Inl err, c1) \<longrightarrow>
                res = Some err \<and> cs = [CallConnectMedia (TransportId a)])
         \<and> (\<forall>n data c1 err c2.
                chan_ConnectMedia X (TransportId a) (connection this) = (Inr (n, data), c1)
                \<and> conn_send X data c1 = (Some err, c2) \<longrightarrow>
                res = Some err \<and> cs = [CallConnectMedia (TransportId a), CallSend data])
         \<and> (\<forall>n data c1 c2.
                chan_ConnectMedia X (TransportId a) (connection this) = (Inr (n, data), c1)
                \<and> conn_send X data c1 = (None, c2) \<longrightarrow>
                take 3 cs =
                  [CallConnectMedia (TransportId a), CallSend data,
                   CallLoadUrl (TransportId a) url mimetype autoplay]
                \<and> (res, this', drop 2 cs) =
                    encode_send X (CallLoadUrl (TransportId a) url mimetype autoplay)
                      (chan_LoadUrl X (TransportId a) url mimetype autoplay)
                      (this\<lparr>connection := c2\<rparr>)))"
proof -
  have absent: "app this = None \<or> (\<exists>a. app this = Some a \<and> TransportId a = '''') \<longrightarrow>
      ReqLoadURL X url mimetype autoplay this =
        (Some (ErrOutOfOrder [''transportId'']), this, [])
      \<and> is_OutOfOrder (fst (ReqLoadURL X url mimetype autoplay this))"
    using ReqLoadURL_no_app [of this X url mimetype autoplay] by auto
  have present: "hd cs = CallConnectMedia (TransportId a)
         \<and> (\<forall>err c1. chan_ConnectMedia X (TransportId a) (connection this) = (Inl err, c1) \<longrightarrow>
                res = Some err \<and> cs = [CallConnectMedia (TransportId a)])
         \<and> (\<forall>n data c1 err c2.
                chan_ConnectMedia X (TransportId a) (connection this) = (Inr (n, data), c1)
                \<and> conn_send X data c1 = (Some err, c2) \<longrightarrow>
                res = Some err \<and> cs = [CallConnectMedia (TransportId a), CallSend data])
         \<and> (\<forall>n data c1 c2.
                chan_ConnectMedia X (TransportId a) (connection this) = (Inr (n, data), c1)
                \<and> conn_send X data c1 = (None, c2) \<longrightarrow>
                take 3 cs =
                  [CallConnectMedia (TransportId a), CallSend data,
                   CallLoadUrl (TransportId a) url mimetype autoplay]
                \<and> (res, this', drop 2 cs) =
                    encode_send X (CallLoadUrl (TransportId a) url mimetype autoplay)
                      (chan_LoadUrl X (TransportId a) url mimetype autoplay)
                      (this\<lparr>connection := c2\<rparr>))"
    if a: "app this = Some a" "TransportId a \<noteq> ''''"
      and r: "ReqLoadURL X url mimetype autoplay this = (res, this', cs)"
    for a res this' cs
  proof (intro conjI allI impI)
    note eq = r [unfolded ReqLoadURL_steps [OF a]]
    show "hd cs = CallConnectMedia (TransportId a)"
      using eq
      by (auto simp: encode_send_result split: prod.splits sum.splits option.splits)
    show "res = Some err" and "cs = [CallConnectMedia (TransportId a)]"
      if "chan_ConnectMedia X (TransportId a) (connection this) = (Inl err, c1)" for err c1
      using eq that by (simp_all add: encode_send_result split: prod.splits)
    show "res = Some err" and "cs = [CallConnectMedia (TransportId a), CallSend data]"
      if "chan_ConnectMedia X (TransportId a) (connection this) = (Inr (n, data), c1)
          \<and> conn_send X data c1 = (Some err, c2)" for n data c1 err c2
      using eq that by (simp_all add: encode_send_result split: prod.splits)
    show "take 3 cs =
            [CallConnectMedia (TransportId a), CallSend data,
             CallLoadUrl (TransportId a) url mimetype autoplay]"
      and "(res, this', drop 2 cs) =
              encode_send X (CallLoadUrl (TransportId a) url mimetype autoplay)
                (chan_LoadUrl X (TransportId a) url mimetype autoplay)
                (this\<lparr>connection := c2\<rparr>)"
      if "chan_ConnectMedia X (TransportId a) (connection this) = (Inr (n, data), c1)
          \<and> conn_send X data c1 = (None, c2)" for n data c1 c2
      using eq that
      by (auto simp: encode_send_result split: prod.splits sum.splits)
  qed
  from absent present show ?thesis
    by blast
qed

lemma scenario_load:
  "ReqLoadURL scenario_extern ''http://10.0.0.9/a.mp4'' ''video/mp4'' True
     (scenario_connected\<lparr>app := Some scenario_app\<rparr>) =
     (None,
      scenario_connected
        \<lparr>connection :=
           \<lparr>cstate = Connected, msgid = 2,
            wire = [(1, CONNECT_MEDIA ''web-5''),
                    (2, LOAD ''web-5'' ''http://10.0.0.9/a.mp4'' ''video/mp4'' True)]\<rparr>,
         app := Some scenario_app\<rparr>,
      [CallConnectMedia ''web-5'', CallSend (1, CONNECT_MEDIA ''web-5''),
       CallLoadUrl ''web-5'' ''http://10.0.0.9/a.mp4'' ''video/mp4'' True,
       CallSend (2, LOAD ''web-5'' ''http://10.0.0.9/a.mp4'' ''video/mp4'' True)])"
  by (simp add: ReqLoadURL_def encode_send_def scenario_connected_def scenario_device_def
        scenario_app_def scenario_extern_def spec_extern_def spec_encode_def spec_send_def
        spec_zero_def)

theorem ReqLoadURL_two_ordered_steps_witness:
  "app scenario_connected = None
   \<and> is_OutOfOrder (fst (ReqLoadURL scenario_extern ''http://10.0.0.9/a.mp4'' ''video/mp4'' True
                           scenario_connected))
   \<and> app (scenario_connected\<lparr>app := Some scenario_app\<rparr>) = Some scenario_app
   \<and> TransportId scenario_app \<noteq> ''''
   \<and> chan_ConnectMedia scenario_extern (TransportId scenario_app)
        (connection (scenario_connected\<lparr>app := Some scenario_app\<rparr>)) =
       (Inr (1, (1, CONNECT_MEDIA ''web-5'')), \<lparr>cstate = Connected, msgid = 1, wire = []\<rparr>)
   \<and> conn_send scenario_extern (1, CONNECT_MEDIA ''web-5'')
        \<lparr>cstate = Connected, msgid = 1, wire = []\<rparr> =
       (None, \<lparr>cstate = Connected, msgid = 1, wire = [(1, CONNECT_MEDIA ''web-5'')]\<rparr>)
   \<and> take 3 (snd (snd (ReqLoadURL scenario_extern ''http://10.0.0.9/a.mp4'' ''video/mp4'' True
                          (scenario_connected\<lparr>app := Some scenario_app\<rparr>)))) =
       [CallConnectMedia ''web-5'', CallSend (1, CONNECT_MEDIA ''web-5''),
        CallLoadUrl ''web-5'' ''http://10.0.0.9/a.mp4'' ''video/mp4'' True]"
proof -
  let ?d = "scenario_connected\<lparr>app := Some scenario_app\<rparr>"
  let ?u = "''http://10.0.0.9/a.mp4''"
  have none: "app scenario_connected = None"
    by (simp add: scenario_caches)
  have some: "app ?d = Some scenario_app" "TransportId scenario_app \<noteq> ''''"
    "TransportId scenario_app = ''web-5''"
    by (simp_all add: scenario_app_def)
  have enc: "chan_ConnectMedia scenario_extern (TransportId scenario_app) (connection ?d) =
       (Inr (1, (1, CONNECT_MEDIA ''web-5'')), \<lparr>cstate = Connected, msgid = 1, wire = []\<rparr>)"
    by (simp add: scenario_extern_def spec_extern_def spec_encode_def scenario_connected_def
          scenario_device_def spec_zero_def scenario_app_def)
  have snd: "conn_send scenario_extern (1, CONNECT_MEDIA ''web-5'')
        \<lparr>cstate = Connected, msgid = 1, wire = []\<rparr> =
       (None, \<lparr>cstate = Connected, msgid = 1, wire = [(1, CONNECT_MEDIA ''web-5'')]\<rparr>)"
    by (simp add: scenario_extern_def spec_extern_def spec_send_def)
  from ReqLoadURL_two_ordered_steps [of scenario_connected scenario_extern ?u "''video/mp4''" True]
    none
  have a: "is_OutOfOrder (fst (ReqLoadURL scenario_extern ?u ''video/mp4'' True
                           scenario_connected))"
    by blast
  from ReqLoadURL_two_ordered_steps [of ?d scenario_extern ?u "''video/mp4''" True]
    some(1,2) scenario_load enc snd
  have b: "take 3 (snd (snd (ReqLoadURL scenario_extern ?u ''video/mp4'' True ?d))) =
       [CallConnectMedia ''web-5'', CallSend (1, CONNECT_MEDIA ''web-5''),
        CallLoadUrl ''web-5'' ?u ''video/mp4'' True]"
    by (simp add: scenario_load)
  from none some enc snd a b show ?thesis
    by simp
qed

subsection \<open>Requests on a device that is not connected\<close>

text \<open>
  The claim C9 at a device that was never connected and holds a volume and an app:
  \<open>UpdateStatus\<close> finds both caches known and returns nil, not an ordering error.
\<close>

theorem UpdateStatus_not_connected_counterexample:
  "cstate (connection scenario_cached) = Disconnected
   \<and> fst (UpdateStatus scenario_extern scenario_cached) = None
   \<and> \<not> is_OutOfOrder (fst (UpdateStatus scenario_extern scenario_cached))"
  by (simp add: UpdateStatus_def scenario_caches)

lemma spec_encode_send_not_connected:
  assumes "cstate (connection this) \<noteq> Connected"
  shows "encode_send (spec_extern reach) w (spec_encode m) this =
           (Some (ErrTransport ''send''),
            this\<lparr>connection := (connection this)\<lparr>msgid := msgid (connection this) + 1\<rparr>\<rparr>,
            [w, CallSend (msgid (connection this) + 1, m)])"
  using assms
  by (simp add: encode_send_def spec_encode_def spec_extern_def spec_send_def)

text \<open>
  C9, as the code has it, on the connection of section 4.2. The device checks no
  connection state of its own. When the connection is not in the state \<open>Connected\<close>,
  a request that reaches \<open>send\<close> fails with the transport error \<open>send\<close> returns, and no
  frame is written: so do \<open>ReqLaunchAppWithId\<close>, \<open>ReqVolumeLevel\<close>, \<open>ReqMuted\<close>,
  \<open>UpdateStatus\<close> with a cache unknown and \<open>ReqLoadURL\<close> with an app that has a transport
  identifier. \<open>ReqLoadURL\<close> without such an app fails with the ordering error, and
  \<open>UpdateStatus\<close> with both caches known returns nil.
\<close>

theorem requests_when_not_connected:
  assumes "cstate (connection this) \<noteq> Connected"
  shows "fst (ReqLaunchAppWithId (spec_extern reach) appId this) = Some (ErrTransport ''send'')
   \<and> fst (ReqVolumeLevel (spec_extern reach) level this) = Some (ErrTransport ''send'')
   \<and> fst (ReqMuted (spec_extern reach) muted this) = Some (ErrTransport ''send'')
   \<and> fst (UpdateStatus (spec_extern reach) this) =
       (if volume this = None \<or> app this = None then Some (ErrTransport ''send'') else None)
   \<and> fst (ReqLoadURL (spec_extern reach) url mimetype autoplay this) =
       (case app this of
          None \<Rightarrow> Some (ErrOutOfOrder [''transportId''])
        | Some a \<Rightarrow>
            if TransportId a = '''' then Some (ErrOutOfOrder [''transportId''])
            else Some (ErrTransport ''send''))
   \<and> wire (connection (fst (snd (ReqLaunchAppWithId (spec_extern reach) appId this)))) =
       wire (connection this)
   \<and> wire (connection (fst (snd (ReqVolumeLevel (spec_extern reach) level this)))) =
       wire (connection this)
   \<and> wire (connection (fst (snd (ReqMuted (spec_extern reach) muted this)))) =
       wire (connection this)
   \<and> wire (connection (fst (snd (UpdateStatus (spec_extern reach) this)))) =
       wire (connection this)
   \<and> wire (connection (fst (snd (ReqLoadURL (spec_extern reach) url mimetype autoplay this)))) =
       wire (connection this)"
proof -
  note es = spec_encode_send_not_connected [OF assms]
  have enc: "chan_LaunchAppWithId (spec_extern reach) appId = spec_encode (LAUNCH appId)"
    "chan_SetVolume (spec_extern reach) v = spec_encode (SET_VOLUME v)"
    "chan_SetMuted (spec_extern reach) muted = spec_encode (SET_MUTED muted)"
    "chan_GetStatus (spec_extern reach) = spec_encode GET_STATUS"
    "chan_ConnectMedia (spec_extern reach) tid = spec_encode (CONNECT_MEDIA tid)"
    for v tid
    by (simp_all add: spec_extern_def)
  have launch: "fst (ReqLaunchAppWithId (spec_extern reach) appId this) =
        Some (ErrTransport ''send'')
      \<and> wire (connection (fst (snd (ReqLaunchAppWithId (spec_extern reach) appId this)))) =
        wire (connection this)"
    by (simp add: ReqLaunchAppWithId_def enc es)
  have level: "fst (ReqVolumeLevel (spec_extern reach) level this) =
        Some (ErrTransport ''send'')
      \<and> wire (connection (fst (snd (ReqVolumeLevel (spec_extern reach) level this)))) =
        wire (connection this)"
    by (simp add: ReqVolumeLevel_def Let_def enc es)
  have muted: "fst (ReqMuted (spec_extern reach) muted this) = Some (ErrTransport ''send'')
      \<and> wire (connection (fst (snd (ReqMuted (spec_extern reach) muted this)))) =
        wire (connection this)"
    by (simp add: ReqMuted_def enc es)
  have status: "fst (UpdateStatus (spec_extern reach) this) =
       (if volume this = None \<or> app this = None then Some (ErrTransport ''send'') else None)
      \<and> wire (connection (fst (snd (UpdateStatus (spec_extern reach) this)))) =
        wire (connection this)"
    by (simp add: UpdateStatus_def enc es)
  have load: "fst (ReqLoadURL (spec_extern reach) url mimetype autoplay this) =
       (case app this of
          None \<Rightarrow> Some (ErrOutOfOrder [''transportId''])
        | Some a \<Rightarrow>
            if TransportId a = '''' then Some (ErrOutOfOrder [''transportId''])
            else Some (ErrTransport ''send''))
      \<and> wire (connection (fst (snd (ReqLoadURL (spec_extern reach) url mimetype autoplay
                                       this)))) =
        wire (connection this)"
    by (simp add: ReqLoadURL_def enc es split: option.splits)
  from launch level muted status load show ?thesis
    by simp
qed

theorem requests_when_not_connected_witness:
  "cstate (connection scenario_device) \<noteq> Connected
   \<and> fst (ReqLaunchAppWithId scenario_extern ''CC1AD845'' scenario_device) =
       Some (ErrTransport ''send'')
   \<and> fst (ReqMuted scenario_extern True scenario_device) = Some (ErrTransport ''send'')
   \<and> \<not> is_OutOfOrder (fst (ReqMuted scenario_extern True scenario_device))
   \<and> fst (ReqLoadURL scenario_extern ''http://10.0.0.9/a.mp4'' ''video/mp4'' True
            scenario_device) = Some (ErrOutOfOrder [''transportId''])"
proof -
  have d: "cstate (connection scenario_device) \<noteq> Connected" "app scenario_device = None"
    by (simp_all add: scenario_device_def spec_zero_def)
  from requests_when_not_connected
         [OF d(1), of "\<lambda>addr. addr = ''10.0.0.5:8009''" "''CC1AD845''" _ True
            "''http://10.0.0.9/a.mp4''" "''video/mp4''" True]
  show ?thesis
    using d by (simp add: scenario_extern_def)
qed

subsection \<open>The addresses of a constructed device\<close>

lemma ConnectWithTimeout_keeps:
  "ips (fst (snd (ConnectWithTimeout X t this))) = ips this"
  "port (fst (snd (ConnectWithTimeout X t this))) = port this"
  "ident (fst (snd (ConnectWithTimeout X t this))) = ident this"
  by (simp_all add: ConnectWithTimeout_def Let_def split: prod.splits option.splits)

lemma Disconnect_keeps:
  "ips (fst (snd (Disconnect X this))) = ips this"
  "port (fst (snd (Disconnect X this))) = port this"
  "ident (fst (snd (Disconnect X this))) = ident this"
  by (simp_all add: Disconnect_def split: prod.splits option.splits)

lemma UpdateStatus_keeps:
  "ips (fst (snd (UpdateStatus X this))) = ips this"
  "port (fst (snd (UpdateStatus X this))) = port this"
  "ident (fst (snd (UpdateStatus X this))) = ident this"
  by (simp_all add: UpdateStatus_def encode_send_keeps)

lemma SetVolume_SetApp_keep:
  "ips (snd (SetVolume v this)) = ips this"
  "port (snd (SetVolume v this)) = port this"
  "ident (snd (SetVolume v this)) = ident this"
  "ips (snd (SetApp a this)) = ips this"
  "port (snd (SetApp a this)) = port this"
  "ident (snd (SetApp a this)) = ident this"
  by (simp_all add: SetVolume_def SetApp_def split: option.splits)

lemma ReqLoadURL_keeps:
  "ips (fst (snd (ReqLoadURL X u mt ap this))) = ips this"
  "port (fst (snd (ReqLoadURL X u mt ap this))) = port this"
  "ident (fst (snd (ReqLoadURL X u mt ap this))) = ident this"
proof -
  have "ips (fst (snd (ReqLoadURL X u mt ap this))) = ips this
      \<and> port (fst (snd (ReqLoadURL X u mt ap this))) = port this
      \<and> ident (fst (snd (ReqLoadURL X u mt ap this))) = ident this"
  proof (cases "app this")
    case None
    then show ?thesis by (simp add: ReqLoadURL_def)
  next
    case (Some a)
    let ?tid = "TransportId a"
    obtain r1 d1 cs1 where one:
      "encode_send X (CallConnectMedia ?tid) (chan_ConnectMedia X ?tid) this = (r1, d1, cs1)"
      by (cases "encode_send X (CallConnectMedia ?tid) (chan_ConnectMedia X ?tid) this") auto
    have k1: "ips d1 = ips this" "port d1 = port this" "ident d1 = ident this"
      using encode_send_keeps(3-5) [of X "CallConnectMedia ?tid" "chan_ConnectMedia X ?tid" this]
      by (simp_all add: one)
    obtain r2 d2 cs2 where two:
      "encode_send X (CallLoadUrl ?tid u mt ap) (chan_LoadUrl X ?tid u mt ap) d1 = (r2, d2, cs2)"
      by (cases "encode_send X (CallLoadUrl ?tid u mt ap) (chan_LoadUrl X ?tid u mt ap) d1")
         auto
    have k2: "ips d2 = ips d1" "port d2 = port d1" "ident d2 = ident d1"
      using encode_send_keeps(3-5)
              [of X "CallLoadUrl ?tid u mt ap" "chan_LoadUrl X ?tid u mt ap" d1]
      by (simp_all add: two)
    show ?thesis
      using Some one two k1 k2
      by (cases r1) (simp_all add: ReqLoadURL_def)
  qed
  then show "ips (fst (snd (ReqLoadURL X u mt ap this))) = ips this"
    and "port (fst (snd (ReqLoadURL X u mt ap this))) = port this"
    and "ident (fst (snd (ReqLoadURL X u mt ap this))) = ident this"
    by simp_all
qed

lemma invoke_keeps:
  "ips (invoke X m this) = ips this"
  "port (invoke X m this) = port this"
  "ident (invoke X m this) = ident this"
  by (cases m;
      simp add: ConnectWithTimeout_keeps Disconnect_keeps UpdateStatus_keeps
        SetVolume_SetApp_keep ReqLoadURL_keeps SetMedia_def ReqLaunchAppWithId_def
        ReqVolumeLevel_def ReqMuted_def encode_send_keeps Let_def)+

lemma invoke_all_keeps:
  "ips (invoke_all X ms this) = ips this \<and> port (invoke_all X ms this) = port this
   \<and> ident (invoke_all X ms this) = ident this"
  by (induction ms arbitrary: this) (simp_all add: invoke_keeps)

lemma spec_Connect_not_no_address:
  "fst (spec_Connect reach i addr t c) \<noteq>
     Some (ErrNotFound [''ConnectWithTimeout'', ''No Address''])"
  by (simp add: spec_Connect_def)

text \<open>
  C10. A device constructed from a record has the record's addresses, at least one,
  and keeps them through every sequence of calls of its methods. \<open>ConnectWithTimeout\<close>
  on it therefore never takes the no-address branch: it calls \<open>Connect\<close> with the
  record's first address and port and returns what that call returns.
\<close>

theorem constructed_device_keeps_addresses:
  assumes "NewCastFromRecord X r = Some this"
  shows "ips (invoke_all X ms this) = Addrs r
   \<and> ips (invoke_all X ms this) \<noteq> []
   \<and> snd (snd (ConnectWithTimeout X t (invoke_all X ms this))) =
       [CallConnect (txt_value r ''id'') (Sprintf_addr (hd (Addrs r)) (Port r)) t]
   \<and> fst (ConnectWithTimeout X t (invoke_all X ms this)) =
       fst (conn_Connect X (txt_value r ''id'') (Sprintf_addr (hd (Addrs r)) (Port r)) t
              (connection (invoke_all X ms this)))
   \<and> ConnectWithTimeout X t (invoke_all X ms this) \<noteq>
       (Some (ErrNotFound [''ConnectWithTimeout'', ''No Address'']), invoke_all X ms this, [])"
proof -
  let ?d = "invoke_all X ms this"
  let ?addr = "Sprintf_addr (hd (Addrs r)) (Port r)"
  from assms have "NewCastFromRecord X r \<noteq> None"
    by simp
  then have addrs: "Addrs r \<noteq> []"
    by (simp add: NewCastFromRecord_None_iff)
  then obtain ip rest where split: "Addrs r = ip # rest"
    by (cases "Addrs r") auto
  have same: "ips ?d = Addrs r" "port ?d = Port r" "Id' ?d = txt_value r ''id''"
    using invoke_all_keeps [of X ms this] NewCastFromRecord_Some_fields [OF assms]
    by (simp_all add: Id'_def)
  from same(1) split have i: "ips ?d = ip # rest"
    by simp
  obtain res c1 where cc:
    "conn_Connect X (txt_value r ''id'') ?addr t (connection ?d) = (res, c1)"
    by (cases "conn_Connect X (txt_value r ''id'') ?addr t (connection ?d)") auto
  have hd: "hd (Addrs r) = ip"
    by (simp add: split)
  have cw: "ConnectWithTimeout X t ?d =
      (case res of
         Some err \<Rightarrow>
           (Some err, ?d\<lparr>connection := c1\<rparr>, [CallConnect (txt_value r ''id'') ?addr t])
       | None \<Rightarrow>
           (None, ?d\<lparr>connection := c1, volume := None, app := None\<rparr>,
            [CallConnect (txt_value r ''id'') ?addr t]))"
    unfolding ConnectWithTimeout_first_address [OF i] same(2,3) hd [symmetric] cc
    by (cases res) simp_all
  have calls: "snd (snd (ConnectWithTimeout X t ?d)) =
      [CallConnect (txt_value r ''id'') ?addr t]"
    unfolding cw by (cases res) simp_all
  have result: "fst (ConnectWithTimeout X t ?d) =
      fst (conn_Connect X (txt_value r ''id'') ?addr t (connection ?d))"
    unfolding cw cc by (cases res) simp_all
  have other: "ConnectWithTimeout X t ?d \<noteq>
      (Some (ErrNotFound [''ConnectWithTimeout'', ''No Address'']), ?d, [])"
    using calls by auto
  from same(1) addrs calls result other show ?thesis
    by simp
qed


theorem constructed_device_keeps_addresses_witness:
  "NewCastFromRecord scenario_extern scenario_record = Some scenario_device
   \<and> ips (invoke_all scenario_extern
            [M_ConnectWithTimeout 2000000000, M_UpdateStatus, M_Disconnect] scenario_device) =
       [''10.0.0.5'']
   \<and> snd (snd (ConnectWithTimeout scenario_extern 2000000000
                 (invoke_all scenario_extern
                    [M_ConnectWithTimeout 2000000000, M_UpdateStatus, M_Disconnect]
                    scenario_device))) =
       [CallConnect ''abc123'' ''10.0.0.5:8009'' 2000000000]
   \<and> fst (ConnectWithTimeout scenario_extern 2000000000
            (invoke_all scenario_extern
               [M_ConnectWithTimeout 2000000000, M_UpdateStatus, M_Disconnect]
               scenario_device)) \<noteq>
       Some (ErrNotFound [''ConnectWithTimeout'', ''No Address''])"
proof -
  let ?ms = "[M_ConnectWithTimeout 2000000000, M_UpdateStatus, M_Disconnect]"
  let ?d = "invoke_all scenario_extern ?ms scenario_device"
  have addr: "Sprintf_addr (hd (Addrs scenario_record)) (Port scenario_record) =
      ''10.0.0.5:8009''"
    by (simp add: scenario_record_def scenario_address)
  note inst = constructed_device_keeps_addresses [OF scenario_construct, of ?ms 2000000000]
  from inst have i: "ips ?d = [''10.0.0.5'']"
    by (simp only: scenario_record_def ServiceRecord.simps)
  from inst have c: "snd (snd (ConnectWithTimeout scenario_extern 2000000000 ?d)) =
      [CallConnect ''abc123'' ''10.0.0.5:8009'' 2000000000]"
    by (simp only: addr scenario_txt_values)
  from inst have "fst (ConnectWithTimeout scenario_extern 2000000000 ?d) =
      fst (spec_Connect (\<lambda>addr. addr = ''10.0.0.5:8009'') ''abc123'' ''10.0.0.5:8009''
             2000000000 (connection ?d))"
    by (simp only: addr scenario_txt_values scenario_extern_def spec_extern_def
          extern.simps)
  then have e: "fst (ConnectWithTimeout scenario_extern 2000000000 ?d) \<noteq>
      Some (ErrNotFound [''ConnectWithTimeout'', ''No Address''])"
    by (simp only: spec_Connect_not_no_address not_False_eq_True)
  from scenario_construct i c e show ?thesis
    by (intro conjI)
qed

end
